theory Spec2Isabelle
  imports Complex_Main "HOL-Library.Multiset" "HOL-Library.Sublist"
begin

section \<open>COCO to YOLO conversion and dataset splitting\<close>

text \<open>
  A shallow embedding of the two notebooks of the repository: the splitting converter
  (\<open>create_directory_structure\<close>, \<open>split_dataset\<close>, \<open>coco_to_yolo\<close> with train/valid/test
  splits) and the basic converter (\<open>coco_to_yolo\<close> of \<open>coco2yolo-seg.ipynb\<close>, whose
  definitions carry the suffix \<open>_basic\<close>).

  Numbers of the JSON document are rationals and the arithmetic is exact: the rounding of
  Python's binary floating point and the decimal rendering of a float by \<open>str\<close> are not
  modelled. A label line is the pair of the class index and the list of numbers that follow
  it; a label file is the list of its lines.
\<close>

subsection \<open>Data model\<close>

datatype error = ValueError | KeyError | IndexError | ZeroDivisionError | IsADirectoryError

record coco_category =
  cat_id :: int
  cat_name :: string

record coco_image =
  img_id :: int
  file_name :: string
  width :: int
  height :: int

text \<open>
  An annotation is a JSON object: \<open>bbox\<close>, \<open>segmentation\<close> and \<open>iscrowd\<close> are optional keys
  (\<open>None\<close> when the key is absent). A segmentation is a list of polygons, each a flat list
  of alternating x and y.
\<close>

record coco_annotation =
  ann_id :: int
  image_id :: int
  category_id :: int
  bbox :: "rat list option"
  segmentation :: "rat list list option"
  iscrowd :: "int option"

record coco_data =
  categories :: "coco_category list"
  images :: "coco_image list"
  annotations :: "coco_annotation list"

type_synonym label_line = "nat \<times> rat list"

subsection \<open>Geometry: one annotation to label lines\<close>

text \<open>
  The inner loop \<open>for i in range(0, len(seg), 2)\<close>: \<open>seg[i] / image_width\<close> raises
  ZeroDivisionError on a zero width, \<open>seg[i+1]\<close> raises IndexError on a polygon of odd
  length, \<open>seg[i+1] / image_height\<close> raises ZeroDivisionError on a zero height.
\<close>

fun normalize_seg :: "int \<Rightarrow> int \<Rightarrow> rat list \<Rightarrow> error + rat list" where
  "normalize_seg W H [] = Inr []"
| "normalize_seg W H [x] = (if W = 0 then Inl ZeroDivisionError else Inl IndexError)"
| "normalize_seg W H (x # y # rest) =
     (if W = 0 then Inl ZeroDivisionError
      else if H = 0 then Inl ZeroDivisionError
      else (case normalize_seg W H rest of
              Inl e \<Rightarrow> Inl e
            | Inr coords \<Rightarrow> Inr (x / of_int W # y / of_int H # coords)))"

text \<open>
  The splitting converter resets \<open>coords\<close> and writes a line inside the loop over the
  polygons: one line per polygon. The result is the lines written and the exception that
  stopped the loop, if any (the lines written before it stay in the file).
\<close>

fun write_segmentation :: "nat \<Rightarrow> int \<Rightarrow> int \<Rightarrow> rat list list \<Rightarrow> label_line list \<times> error option" where
  "write_segmentation ci W H [] = ([], None)"
| "write_segmentation ci W H (seg # segs) =
     (case normalize_seg W H seg of
        Inl e \<Rightarrow> ([], Some e)
      | Inr coords \<Rightarrow>
          (case write_segmentation ci W H segs of (ls, r) \<Rightarrow> ((ci, coords) # ls, r)))"

text \<open>
  The basic converter extends one \<open>coords\<close> list over all polygons and writes a single
  line after the loop.
\<close>

fun normalize_all :: "int \<Rightarrow> int \<Rightarrow> rat list list \<Rightarrow> error + rat list" where
  "normalize_all W H [] = Inr []"
| "normalize_all W H (seg # segs) =
     (case normalize_seg W H seg of
        Inl e \<Rightarrow> Inl e
      | Inr normalized_seg \<Rightarrow>
          (case normalize_all W H segs of
             Inl e \<Rightarrow> Inl e
           | Inr coords \<Rightarrow> Inr (normalized_seg @ coords)))"

definition write_segmentation_basic :: "nat \<Rightarrow> int \<Rightarrow> int \<Rightarrow> rat list list \<Rightarrow> label_line list \<times> error option" where
  "write_segmentation_basic ci W H segs =
     (case normalize_all W H segs of
        Inl e \<Rightarrow> ([], Some e)
      | Inr coords \<Rightarrow> ([(ci, coords)], None))"

text \<open>
  \<open>x_min, y_min, width, height = ann['bbox']\<close> raises ValueError unless the list has four
  elements; the divisions raise ZeroDivisionError on a zero width or height.
\<close>

definition write_bbox :: "nat \<Rightarrow> int \<Rightarrow> int \<Rightarrow> rat list \<Rightarrow> label_line list \<times> error option" where
  "write_bbox ci W H bb =
     (case bb of
        [x_min, y_min, w, h] \<Rightarrow>
          if W = 0 \<or> H = 0 then ([], Some ZeroDivisionError)
          else ([(ci, [(x_min + w / 2) / of_int W, (y_min + h / 2) / of_int H,
                       w / of_int W, h / of_int H])], None)
      | _ \<Rightarrow> ([], Some ValueError))"

text \<open>
  \<open>'segmentation' in ann and ann['segmentation'] and ann.get('iscrowd', 0) == 0\<close>
\<close>

definition uses_segmentation :: "coco_annotation \<Rightarrow> bool" where
  "uses_segmentation ann =
     (case segmentation ann of
        None \<Rightarrow> False
      | Some segs \<Rightarrow> segs \<noteq> [] \<and> (case iscrowd ann of None \<Rightarrow> 0 | Some c \<Rightarrow> c) = 0)"

definition polygons :: "coco_annotation \<Rightarrow> rat list list" where
  "polygons ann = (case segmentation ann of None \<Rightarrow> [] | Some segs \<Rightarrow> segs)"

text \<open>The branch on the geometry of one annotation, after its class index is known.\<close>

definition write_geometry :: "nat \<Rightarrow> int \<Rightarrow> int \<Rightarrow> coco_annotation \<Rightarrow> label_line list \<times> error option" where
  "write_geometry ci W H ann =
     (if uses_segmentation ann then write_segmentation ci W H (polygons ann)
      else (case bbox ann of
              Some bb \<Rightarrow> write_bbox ci W H bb
            | None \<Rightarrow> ([], None)))"

definition write_geometry_basic :: "nat \<Rightarrow> int \<Rightarrow> int \<Rightarrow> coco_annotation \<Rightarrow> label_line list \<times> error option" where
  "write_geometry_basic ci W H ann =
     (if uses_segmentation ann then write_segmentation_basic ci W H (polygons ann)
      else (case bbox ann of
              Some bb \<Rightarrow> write_bbox ci W H bb
            | None \<Rightarrow> ([], None)))"

text \<open>
  The body of \<open>for ann in ...\<close>: \<open>category_id_to_index[ann['category_id']]\<close> raises
  KeyError on an unknown category id.
\<close>

definition write_annotation :: "(int \<rightharpoonup> nat) \<Rightarrow> int \<Rightarrow> int \<Rightarrow> coco_annotation \<Rightarrow> label_line list \<times> error option" where
  "write_annotation idx W H ann =
     (case idx (category_id ann) of
        None \<Rightarrow> ([], Some KeyError)
      | Some class_index \<Rightarrow> write_geometry class_index W H ann)"

definition write_annotation_basic :: "(int \<rightharpoonup> nat) \<Rightarrow> int \<Rightarrow> int \<Rightarrow> coco_annotation \<Rightarrow> label_line list \<times> error option" where
  "write_annotation_basic idx W H ann =
     (case idx (category_id ann) of
        None \<Rightarrow> ([], Some KeyError)
      | Some class_index \<Rightarrow> write_geometry_basic class_index W H ann)"

fun write_labels :: "(int \<rightharpoonup> nat) \<Rightarrow> int \<Rightarrow> int \<Rightarrow> coco_annotation list \<Rightarrow> label_line list \<times> error option" where
  "write_labels idx W H [] = ([], None)"
| "write_labels idx W H (ann # anns) =
     (case write_annotation idx W H ann of
        (ls, Some e) \<Rightarrow> (ls, Some e)
      | (ls, None) \<Rightarrow> (case write_labels idx W H anns of (ls', r) \<Rightarrow> (ls @ ls', r)))"

text \<open>
  The normalised polygon in the words of the specification: for each consecutive pair
  \<open>(x, y)\<close> of the polygon, the pair \<open>(x / width, y / height)\<close>. Used to state what the
  two converters write.
\<close>

fun normalized_pairs :: "int \<Rightarrow> int \<Rightarrow> rat list \<Rightarrow> rat list" where
  "normalized_pairs W H (x # y # rest) = x / of_int W # y / of_int H # normalized_pairs W H rest"
| "normalized_pairs W H _ = []"

subsection \<open>Lookup tables\<close>

text \<open>
  \<open>{cat['id']: idx for idx, cat in enumerate(categories)}\<close> and the two sibling
  comprehensions: a later entry with the same key replaces the earlier one.
\<close>

definition category_id_to_name :: "coco_category list \<Rightarrow> (int \<rightharpoonup> string)" where
  "category_id_to_name cats = fold (\<lambda>cat m. m(cat_id cat \<mapsto> cat_name cat)) cats Map.empty"

definition category_id_to_index :: "coco_category list \<Rightarrow> (int \<rightharpoonup> nat)" where
  "category_id_to_index cats =
     fold (\<lambda>(idx, cat) m. m(cat_id cat \<mapsto> idx)) (enumerate 0 cats) Map.empty"

definition image_id_to_info :: "coco_image list \<Rightarrow> (int \<rightharpoonup> coco_image)" where
  "image_id_to_info imgs = fold (\<lambda>img m. m(img_id img \<mapsto> img)) imgs Map.empty"

text \<open>
  \<open>image_to_annotations\<close> is a dict whose key order matters (\<open>list(....keys())\<close> is the
  input of the split): an association list in insertion order. A new image id goes to the
  end, a known one gets the annotation appended to its list.
\<close>

fun append_annotation :: "coco_annotation \<Rightarrow> (int \<times> coco_annotation list) list \<Rightarrow> (int \<times> coco_annotation list) list" where
  "append_annotation ann [] = [(image_id ann, [ann])]"
| "append_annotation ann ((k, anns) # rest) =
     (if k = image_id ann then (k, anns @ [ann]) # rest
      else (k, anns) # append_annotation ann rest)"

definition image_to_annotations :: "coco_annotation list \<Rightarrow> (int \<times> coco_annotation list) list" where
  "image_to_annotations anns = fold append_annotation anns []"

subsection \<open>The split\<close>

text \<open>
  \<open>int(x)\<close> truncates towards zero. A slice bound that is negative counts from the end, and
  every bound is clipped to the list.
\<close>

definition py_int :: "rat \<Rightarrow> int" where
  "py_int q = (if 0 \<le> q then \<lfloor>q\<rfloor> else \<lceil>q\<rceil>)"

definition slice_bound :: "nat \<Rightarrow> int \<Rightarrow> nat" where
  "slice_bound n i = (if i < 0 then nat (int n + i) else min n (nat i))"

definition py_slice :: "'a list \<Rightarrow> int \<Rightarrow> int \<Rightarrow> 'a list" where
  "py_slice xs lo hi =
     (let a = slice_bound (length xs) lo; b = slice_bound (length xs) hi
      in take (b - a) (drop a xs))"

definition py_slice_from :: "'a list \<Rightarrow> int \<Rightarrow> 'a list" where
  "py_slice_from xs lo = drop (slice_bound (length xs) lo) xs"

text \<open>
  \<open>random.shuffle\<close> is the standard library's: for \<open>i\<close> from \<open>len(x) - 1\<close> down to 1 it draws
  \<open>j = randbelow(i + 1)\<close> from the generator and swaps \<open>x[i]\<close> and \<open>x[j]\<close>. The generator is
  a parameter: a state of type \<open>'g\<close> and a function \<open>randbelow\<close> returning the number drawn
  and the next state.
\<close>

fun shuffle_loop :: "('g \<Rightarrow> nat \<Rightarrow> nat \<times> 'g) \<Rightarrow> nat \<Rightarrow> 'a list \<Rightarrow> 'g \<Rightarrow> 'a list \<times> 'g" where
  "shuffle_loop rb 0 x g = (x, g)"
| "shuffle_loop rb (Suc i) x g =
     (case rb g (Suc (Suc i)) of
        (j, g') \<Rightarrow> shuffle_loop rb i (x[Suc i := x ! j, j := x ! Suc i]) g')"

definition shuffle :: "('g \<Rightarrow> nat \<Rightarrow> nat \<times> 'g) \<Rightarrow> 'a list \<Rightarrow> 'g \<Rightarrow> 'a list \<times> 'g" where
  "shuffle rb x g = shuffle_loop rb (length x - 1) x g"


text \<open>
  \<open>split_dataset\<close> reads and advances the global generator, passed in and returned here.
  The caller's list is not touched: the shuffle runs on a copy (see \<open>split_dataset_store\<close>
  below for the same function over a store of list objects).
\<close>

definition split_dataset :: "('g \<Rightarrow> nat \<Rightarrow> nat \<times> 'g) \<Rightarrow> int list \<Rightarrow> rat \<Rightarrow> rat \<Rightarrow> rat \<Rightarrow> 'g \<Rightarrow> error + ((int list \<times> int list \<times> int list) \<times> 'g)" where
  "split_dataset rb image_ids train_ratio val_ratio test_ratio g =
     (if \<not> (999 / 1000 \<le> train_ratio + val_ratio + test_ratio
             \<and> train_ratio + val_ratio + test_ratio \<le> 1001 / 1000)
      then Inl ValueError
      else (case shuffle rb image_ids g of
              (shuffled_ids, g') \<Rightarrow>
                let total = length shuffled_ids;
                    train_end = py_int (of_nat total * train_ratio);
                    val_end = py_int (of_nat total * (train_ratio + val_ratio));
                    train_ids = py_slice shuffled_ids 0 train_end;
                    val_ids = py_slice shuffled_ids train_end val_end;
                    test_ids = (if test_ratio > 0 then py_slice_from shuffled_ids val_end else [])
                in Inr ((train_ids, val_ids, test_ids), g')))"

text \<open>
  The same function with the lists as objects in a store (a list object is addressed by
  its index in the store): \<open>image_ids.copy()\<close> allocates a new object, \<open>random.shuffle\<close>
  mutates the object it is given in place, and the three slices are returned by value.
\<close>

type_synonym store = "int list list"

definition list_copy :: "store \<Rightarrow> nat \<Rightarrow> store \<times> nat" where
  "list_copy s a = (s @ [s ! a], length s)"

definition shuffle_in_place :: "('g \<Rightarrow> nat \<Rightarrow> nat \<times> 'g) \<Rightarrow> store \<Rightarrow> nat \<Rightarrow> 'g \<Rightarrow> store \<times> 'g" where
  "shuffle_in_place rb s a g = (case shuffle rb (s ! a) g of (x, g') \<Rightarrow> (s[a := x], g'))"

definition split_dataset_store :: "('g \<Rightarrow> nat \<Rightarrow> nat \<times> 'g) \<Rightarrow> store \<Rightarrow> nat \<Rightarrow> rat \<Rightarrow> rat \<Rightarrow> rat \<Rightarrow> 'g \<Rightarrow> error + ((int list \<times> int list \<times> int list) \<times> store \<times> 'g)" where
  "split_dataset_store rb s image_ids train_ratio val_ratio test_ratio g =
     (if \<not> (999 / 1000 \<le> train_ratio + val_ratio + test_ratio
             \<and> train_ratio + val_ratio + test_ratio \<le> 1001 / 1000)
      then Inl ValueError
      else (case list_copy s image_ids of
              (s1, shuffled_ids) \<Rightarrow>
                (case shuffle_in_place rb s1 shuffled_ids g of
                   (s2, g') \<Rightarrow>
                     let total = length (s2 ! shuffled_ids);
                         train_end = py_int (of_nat total * train_ratio);
                         val_end = py_int (of_nat total * (train_ratio + val_ratio));
                         train_ids = py_slice (s2 ! shuffled_ids) 0 train_end;
                         val_ids = py_slice (s2 ! shuffled_ids) train_end val_end;
                         test_ids = (if test_ratio > 0 then py_slice_from (s2 ! shuffled_ids) val_end else [])
                     in Inr ((train_ids, val_ids, test_ids), s2, g'))))"

subsection \<open>The file system and the run\<close>

text \<open>
  A path is the list of its components, \<open>os.path.join\<close> appends components (file names
  are single relative components). The file system is the set of directories and the map
  from paths to file contents. Creating a directory and opening a file for writing are
  taken to succeed (the output tree holds no file where a directory is made and no
  directory where a file is written); \<open>os.path.exists\<close> holds of files and of directories,
  and copying from a path that exists but is no file raises.
\<close>

type_synonym path = "string list"

datatype yaml_value = Location string | Count nat | Names "string list"

datatype content =
    Bytes "nat list"
  | Labels "label_line list"
  | Manifest "(string \<times> yaml_value) list"

record filesystem =
  dirs :: "path set"
  files :: "path \<rightharpoonup> content"

definition path_exists :: "filesystem \<Rightarrow> path \<Rightarrow> bool" where
  "path_exists fsys p = (p \<in> dirs fsys \<or> files fsys p \<noteq> None)"

text \<open>\<open>os.makedirs(p, exist_ok=True)\<close>: the directory and every parent of it.\<close>

definition makedirs :: "path \<Rightarrow> filesystem \<Rightarrow> filesystem" where
  "makedirs p fsys = fsys\<lparr>dirs := dirs fsys \<union> set (tl (prefixes p))\<rparr>"

definition copy2 :: "path \<Rightarrow> path \<Rightarrow> filesystem \<Rightarrow> error + filesystem" where
  "copy2 src dst fsys =
     (case files fsys src of
        None \<Rightarrow> Inl IsADirectoryError
      | Some data \<Rightarrow> Inr (fsys\<lparr>files := (files fsys)(dst \<mapsto> data)\<rparr>))"

definition write_file :: "path \<Rightarrow> content \<Rightarrow> filesystem \<Rightarrow> filesystem" where
  "write_file p c fsys = fsys\<lparr>files := (files fsys)(p \<mapsto> c)\<rparr>"

definition create_directory_structure :: "path \<Rightarrow> filesystem \<Rightarrow> filesystem" where
  "create_directory_structure base_dir fsys =
     fold (\<lambda>split fsys'.
             fold (\<lambda>subdir. makedirs (base_dir @ [split, subdir])) [''images'', ''labels''] fsys')
          [''train'', ''valid'', ''test''] fsys"

text \<open>
  What the run reads and changes: the file system, the global random generator, and the
  two lists \<open>missing_images\<close> and \<open>copied_images\<close>.
\<close>

record 'g state =
  fs :: filesystem
  rng :: 'g
  missing_images :: "string list"
  copied_images :: "string list"

text \<open>
  The standard library the notebook calls: \<open>random.seed\<close> (the state it sets depends on
  the seed alone), the generator's \<open>randbelow\<close>, and the first component of
  \<open>os.path.splitext\<close>.
\<close>

record 'g stdlib =
  random_seed :: "int \<Rightarrow> 'g"
  randbelow :: "'g \<Rightarrow> nat \<Rightarrow> nat \<times> 'g"
  splitext_root :: "string \<Rightarrow> string"

text \<open>
  The body of the loop over the image ids of one split. A raise returns \<open>Inl\<close> with the
  exception and the state reached: what was written before stays written. The label file
  is opened for writing before the first annotation is looked at, so it exists, with the
  lines written so far, also when an annotation raises.
\<close>

definition process_image :: "'g stdlib \<Rightarrow> path \<Rightarrow> path \<Rightarrow> (int \<rightharpoonup> coco_image) \<Rightarrow> (int \<rightharpoonup> nat) \<Rightarrow> (int \<times> coco_annotation list) list \<Rightarrow> string \<Rightarrow> int \<Rightarrow> 'g state \<Rightarrow> (error \<times> 'g state) + 'g state" where
  "process_image L image_dir output_dir id_to_info id_to_index groups split_name iid st =
     (case id_to_info iid of
        None \<Rightarrow> Inl (KeyError, st)
      | Some image_info \<Rightarrow>
          let image_file_name = file_name image_info;
              label_file_name = splitext_root L image_file_name @ ''.txt'';
              src_image_path = image_dir @ [image_file_name];
              dst_image_path = output_dir @ [split_name, ''images'', image_file_name];
              label_file_path = output_dir @ [split_name, ''labels'', label_file_name]
          in if path_exists (fs st) src_image_path then
               (case (if \<not> path_exists (fs st) dst_image_path
                      then (case copy2 src_image_path dst_image_path (fs st) of
                              Inl e \<Rightarrow> Inl (e, st)
                            | Inr fsys \<Rightarrow>
                                Inr (st\<lparr>fs := fsys,
                                        copied_images := copied_images st @ [image_file_name]\<rparr>))
                      else Inr st) of
                  Inl r \<Rightarrow> Inl r
                | Inr st1 \<Rightarrow>
                    (case map_of groups iid of
                       None \<Rightarrow>
                         Inl (KeyError, st1\<lparr>fs := write_file label_file_path (Labels []) (fs st1)\<rparr>)
                     | Some anns \<Rightarrow>
                         (case write_labels id_to_index (width image_info) (height image_info) anns of
                            (ls, r) \<Rightarrow>
                              let st2 = st1\<lparr>fs := write_file label_file_path (Labels ls) (fs st1)\<rparr>
                              in (case r of None \<Rightarrow> Inr st2 | Some e \<Rightarrow> Inl (e, st2)))))
             else Inr (st\<lparr>missing_images := missing_images st @ [image_file_name]\<rparr>))"

fun process_ids :: "'g stdlib \<Rightarrow> path \<Rightarrow> path \<Rightarrow> (int \<rightharpoonup> coco_image) \<Rightarrow> (int \<rightharpoonup> nat) \<Rightarrow> (int \<times> coco_annotation list) list \<Rightarrow> string \<Rightarrow> int list \<Rightarrow> 'g state \<Rightarrow> (error \<times> 'g state) + 'g state" where
  "process_ids L image_dir output_dir id_to_info id_to_index groups split_name [] st = Inr st"
| "process_ids L image_dir output_dir id_to_info id_to_index groups split_name (iid # rest) st =
     (case process_image L image_dir output_dir id_to_info id_to_index groups split_name iid st of
        Inl r \<Rightarrow> Inl r
      | Inr st' \<Rightarrow> process_ids L image_dir output_dir id_to_info id_to_index groups split_name rest st')"

text \<open>\<open>for split_name, split_ids in splits.items()\<close>, an empty split skipped.\<close>

fun process_splits :: "'g stdlib \<Rightarrow> path \<Rightarrow> path \<Rightarrow> (int \<rightharpoonup> coco_image) \<Rightarrow> (int \<rightharpoonup> nat) \<Rightarrow> (int \<times> coco_annotation list) list \<Rightarrow> (string \<times> int list) list \<Rightarrow> 'g state \<Rightarrow> (error \<times> 'g state) + 'g state" where
  "process_splits L image_dir output_dir id_to_info id_to_index groups [] st = Inr st"
| "process_splits L image_dir output_dir id_to_info id_to_index groups ((split_name, split_ids) # rest) st =
     (if split_ids = [] then process_splits L image_dir output_dir id_to_info id_to_index groups rest st
      else (case process_ids L image_dir output_dir id_to_info id_to_index groups split_name split_ids st of
              Inl r \<Rightarrow> Inl r
            | Inr st' \<Rightarrow> process_splits L image_dir output_dir id_to_info id_to_index groups rest st'))"

definition data_yaml :: "rat \<Rightarrow> coco_category list \<Rightarrow> (string \<times> yaml_value) list" where
  "data_yaml test_ratio cats =
     [(''train'', Location ''./train/images''), (''val'', Location ''./valid/images'')]
     @ (if test_ratio > 0 then [(''test'', Location ''./test/images'')] else [])
     @ [(''nc'', Count (length cats)), (''names'', Names (map cat_name cats))]"

text \<open>
  The splitting converter. The JSON document is given parsed; the state passed in is the
  file system and generator before the call.
\<close>

definition coco_to_yolo :: "'g stdlib \<Rightarrow> coco_data \<Rightarrow> path \<Rightarrow> path \<Rightarrow> rat \<Rightarrow> rat \<Rightarrow> rat \<Rightarrow> int \<Rightarrow> 'g state \<Rightarrow> (error \<times> 'g state) + 'g state" where
  "coco_to_yolo L coco image_dir output_dir train_ratio val_ratio test_ratio seed st0 =
     (let st_seeded = st0\<lparr>rng := random_seed L seed\<rparr>;
          id_to_index = category_id_to_index (categories coco);
          id_to_info = image_id_to_info (images coco);
          groups = image_to_annotations (annotations coco);
          st_dirs = st_seeded\<lparr>fs := create_directory_structure output_dir (fs st_seeded)\<rparr>;
          all_image_ids = map fst groups
      in (case split_dataset (randbelow L) all_image_ids train_ratio val_ratio test_ratio (rng st_dirs) of
            Inl e \<Rightarrow> Inl (e, st_dirs)
          | Inr ((train_ids, val_ids, test_ids), g') \<Rightarrow>
              (case process_splits L image_dir output_dir id_to_info id_to_index groups
                      [(''train'', train_ids), (''valid'', val_ids), (''test'', test_ids)]
                      (st_dirs\<lparr>rng := g', missing_images := [], copied_images := []\<rparr>) of
                 Inl r \<Rightarrow> Inl r
               | Inr st' \<Rightarrow>
                   Inr (st'\<lparr>fs := write_file (output_dir @ [''data.yaml''])
                                    (Manifest (data_yaml test_ratio (categories coco))) (fs st')\<rparr>))))"


subsection \<open>Concrete inputs\<close>

text \<open>A small generator and extension splitter to run the definitions on concrete inputs.\<close>

definition example_lib :: "nat stdlib" where
  "example_lib =
     \<lparr>random_seed = (\<lambda>seed. nat \<bar>seed\<bar>),
      randbelow = (\<lambda>g n. (g mod n, (g * 5 + 3) mod 64)),
      splitext_root = takeWhile (\<lambda>c. c \<noteq> CHR ''.'')\<rparr>"

text \<open>
  Documents and states for the examples: categories with a repeated id, an image with one
  annotation, the same image with a second annotation of an unknown category, and a file
  system that holds the image.
\<close>

definition dup_categories :: "coco_category list" where
  "dup_categories = [\<lparr>cat_id = 1, cat_name = ''car''\<rparr>, \<lparr>cat_id = 1, cat_name = ''bus''\<rparr>]"

definition empty_state :: "nat state" where
  "empty_state =
     \<lparr>fs = \<lparr>dirs = {}, files = Map.empty\<rparr>, rng = 0, missing_images = [], copied_images = []\<rparr>"






section \<open>Properties\<close>

subsection \<open>Geometry\<close>

lemma write_geometry_bbox_branch:
  "\<not> uses_segmentation ann \<Longrightarrow>
   write_geometry ci W H ann = (case bbox ann of Some bb \<Rightarrow> write_bbox ci W H bb | None \<Rightarrow> ([], None))"
  by (simp add: write_geometry_def)

lemma write_geometry_basic_bbox_branch:
  "\<not> uses_segmentation ann \<Longrightarrow>
   write_geometry_basic ci W H ann = (case bbox ann of Some bb \<Rightarrow> write_bbox ci W H bb | None \<Rightarrow> ([], None))"
  by (simp add: write_geometry_basic_def)

text \<open>
  The splitting converter writes as many lines as it has normalised polygons; the basic
  converter writes one line whenever the polygons normalise.
\<close>

lemma write_segmentation_length:
  "write_segmentation ci W H segs = (ls, None) \<Longrightarrow> length ls = length segs"
  by (induction segs arbitrary: ls) (auto split: sum.splits prod.splits)

lemma write_segmentation_basic_length:
  "write_segmentation_basic ci W H segs = (ls, None) \<Longrightarrow> length ls = 1"
  by (auto simp add: write_segmentation_basic_def split: sum.splits)

text \<open>
  On polygons of even length and an image of non-zero width and height, the splitting
  converter writes one line per polygon and the basic converter one line per annotation.
\<close>

lemma normalize_seg_pairs:
  "W \<noteq> 0 \<Longrightarrow> H \<noteq> 0 \<Longrightarrow> even (length seg) \<Longrightarrow>
   normalize_seg W H seg = Inr (normalized_pairs W H seg)"
  by (induction W H seg rule: normalize_seg.induct) simp_all

lemma write_segmentation_lines:
  "W \<noteq> 0 \<Longrightarrow> H \<noteq> 0 \<Longrightarrow> \<forall>seg \<in> set segs. even (length seg) \<Longrightarrow>
   write_segmentation ci W H segs = (map (\<lambda>seg. (ci, normalized_pairs W H seg)) segs, None)"
  by (induction segs) (simp_all add: normalize_seg_pairs)

lemma normalize_all_pairs:
  "W \<noteq> 0 \<Longrightarrow> H \<noteq> 0 \<Longrightarrow> \<forall>seg \<in> set segs. even (length seg) \<Longrightarrow>
   normalize_all W H segs = Inr (concat (map (normalized_pairs W H) segs))"
  by (induction segs) (simp_all add: normalize_seg_pairs)

lemma write_segmentation_basic_line:
  "W \<noteq> 0 \<Longrightarrow> H \<noteq> 0 \<Longrightarrow> \<forall>seg \<in> set segs. even (length seg) \<Longrightarrow>
   write_segmentation_basic ci W H segs = ([(ci, concat (map (normalized_pairs W H) segs))], None)"
  by (simp add: write_segmentation_basic_def normalize_all_pairs)

text \<open>
  C1. An annotation with a non-empty segmentation and \<open>iscrowd = 0\<close> whose segmentation has
  two polygons: the splitting converter writes two lines, one per polygon, where the basic
  converter writes the single line holding both polygons' normalised coordinates.
\<close>

theorem two_polygons_two_lines:
  "write_annotation [7 \<mapsto> 0] 10 10
     \<lparr>ann_id = 1, image_id = 1, category_id = 7, bbox = None,
      segmentation = Some [[0, 0, 10, 0, 10, 10], [5, 5, 10, 5, 10, 10]], iscrowd = Some 0\<rparr>
   = ([(0, [0, 0, 1, 0, 1, 1]), (0, [1 / 2, 1 / 2, 1, 1 / 2, 1, 1])], None)
   \<and> write_annotation_basic [7 \<mapsto> 0] 10 10
     \<lparr>ann_id = 1, image_id = 1, category_id = 7, bbox = None,
      segmentation = Some [[0, 0, 10, 0, 10, 10], [5, 5, 10, 5, 10, 10]], iscrowd = Some 0\<rparr>
   = ([(0, [0, 0, 1, 0, 1, 1, 1 / 2, 1 / 2, 1, 1 / 2, 1, 1])], None)"
  by (simp add: write_annotation_def write_geometry_def write_annotation_basic_def
      write_geometry_basic_def write_segmentation_basic_def uses_segmentation_def polygons_def)



text \<open>
  C7. An annotation whose \<open>iscrowd\<close> is not 0 (so in particular \<open>iscrowd = 1\<close>) is written
  as if it had no segmentation at all, in both converters: no segmentation line is
  produced, and when it has a bbox the line is the bbox line.
\<close>

theorem crowd_falls_back_to_bbox:
  assumes "iscrowd ann = Some c" and "c \<noteq> 0"
  shows "write_annotation id_to_index W H ann =
           write_annotation id_to_index W H (ann\<lparr>segmentation := None\<rparr>)
       \<and> write_annotation_basic id_to_index W H ann = write_annotation id_to_index W H ann
       \<and> (\<forall>x_min y_min w h class_index.
            bbox ann = Some [x_min, y_min, w, h] \<and> id_to_index (category_id ann) = Some class_index
              \<and> 0 < W \<and> 0 < H \<longrightarrow>
            write_annotation id_to_index W H ann =
              ([(class_index, [(x_min + w / 2) / of_int W, (y_min + h / 2) / of_int H,
                               w / of_int W, h / of_int H])], None))"
proof -
  have a: "\<not> uses_segmentation ann"
    using assms by (simp add: uses_segmentation_def split: option.splits)
  have b: "\<not> uses_segmentation (ann\<lparr>segmentation := None\<rparr>)"
    by (simp add: uses_segmentation_def)
  show ?thesis
    using a b
    by (auto simp add: write_annotation_def write_annotation_basic_def write_geometry_bbox_branch
        write_geometry_basic_bbox_branch write_bbox_def split: option.splits)
qed

theorem crowd_falls_back_to_bbox_witness:
  "write_annotation [3 \<mapsto> 2] 10 20
     \<lparr>ann_id = 1, image_id = 1, category_id = 3, bbox = Some [2, 4, 6, 8],
      segmentation = Some [[0, 0, 10, 0, 10, 20]], iscrowd = Some 1\<rparr>
   = ([(2, [1 / 2, 2 / 5, 3 / 5, 2 / 5])], None)"
  using crowd_falls_back_to_bbox [of "\<lparr>ann_id = 1, image_id = 1, category_id = 3,
      bbox = Some [2, 4, 6, 8], segmentation = Some [[0, 0, 10, 0, 10, 20]],
      iscrowd = Some 1\<rparr>" 1 "[3 \<mapsto> 2]" 10 20, THEN conjunct2, THEN conjunct2]
  by simp

subsection \<open>The split\<close>


lemma shuffle_in_place_copy:
  "shuffle rb (s ! a) g = (x, g') \<Longrightarrow>
   shuffle_in_place rb (s @ [s ! a]) (length s) g = (s @ [x], g')"
  by (simp add: shuffle_in_place_def)

text \<open>The function over the store returns what the function over values returns.\<close>

lemma split_dataset_store_eq:
  "split_dataset_store rb s a train_ratio val_ratio test_ratio g =
     (case split_dataset rb (s ! a) train_ratio val_ratio test_ratio g of
        Inl e \<Rightarrow> Inl e
      | Inr (r, g') \<Rightarrow> Inr (r, s @ [fst (shuffle rb (s ! a) g)], g'))"
proof -
  obtain x g' where sh: "shuffle rb (s ! a) g = (x, g')"
    by (cases "shuffle rb (s ! a) g")
  show ?thesis
    unfolding split_dataset_store_def split_dataset_def list_copy_def
    by (simp add: sh shuffle_in_place_copy [OF sh] Let_def)
qed

lemma example_store_run:
  "split_dataset_store (randbelow example_lib) [[1, 2, 3, 4]] 0 (1 / 2) (1 / 2) 0 (5::nat)
     = Inr (([1, 3], [4, 2], []), [[1, 2, 3, 4], [1, 3, 4, 2]], 14)"
  by code_simp

text \<open>
  C10. \<open>split_dataset\<close> called on the list object at address \<open>a\<close> either raises ValueError
  before touching anything, or returns with every object that existed before the call
  unchanged, the caller's list among them; the shuffled list is a new object.
\<close>

theorem split_dataset_store_frame:
  assumes "a < length s"
  shows "split_dataset_store rb s a train_ratio val_ratio test_ratio g = Inl ValueError
       \<or> (\<exists>r s' g'. split_dataset_store rb s a train_ratio val_ratio test_ratio g = Inr (r, s', g')
            \<and> s' ! a = s ! a \<and> take (length s) s' = s \<and> length s' = Suc (length s))"
proof (cases "split_dataset rb (s ! a) train_ratio val_ratio test_ratio g")
  case (Inl e)
  then have "e = ValueError"
    by (simp add: split_dataset_def Let_def split: if_splits prod.splits)
  with Inl show ?thesis by (simp add: split_dataset_store_eq)
next
  case (Inr p)
  then show ?thesis
    using assms by (cases p) (auto simp add: split_dataset_store_eq nth_append)
qed

theorem split_dataset_store_frame_witness:
  "split_dataset_store (randbelow example_lib) [[1, 2, 3, 4]] 0 (1 / 2) (1 / 2) 0 (5::nat)
     = Inr (([1, 3], [4, 2], []), [[1, 2, 3, 4], [1, 3, 4, 2]], 14)
   \<and> [[1, 2, 3, 4], [1, 3, 4, 2]] ! 0 = [[1, 2, 3, 4::int]] ! 0"
  using split_dataset_store_frame [of 0 "[[1, 2, 3, 4]]" "randbelow example_lib" "1 / 2" "1 / 2" 0 5]
    example_store_run
  by simp

subsection \<open>Lookup tables\<close>

lemma category_id_to_index_snoc:
  "category_id_to_index (cats @ [c]) = (category_id_to_index cats)(cat_id c \<mapsto> length cats)"
  by (simp add: category_id_to_index_def enumerate_append_eq)

lemma category_id_to_index_dom:
  "dom (category_id_to_index cats) = cat_id ` set cats"
proof (induction cats rule: rev_induct)
  case Nil
  then show ?case by (simp add: category_id_to_index_def)
next
  case (snoc c cats)
  have "dom (category_id_to_index (cats @ [c])) = insert (cat_id c) (dom (category_id_to_index cats))"
    by (simp only: category_id_to_index_snoc dom_fun_upd option.simps if_False)
  with snoc show ?case by simp
qed

lemma category_id_to_index_last:
  "i < length cats \<Longrightarrow>
   (\<forall>j<length cats. i < j \<longrightarrow> cat_id (cats ! j) \<noteq> cat_id (cats ! i)) \<Longrightarrow>
   category_id_to_index cats (cat_id (cats ! i)) = Some i"
proof (induction cats rule: rev_induct)
  case Nil
  then show ?case by simp
next
  case (snoc c cats)
  show ?case
  proof (cases "i = length cats")
    case True
    then show ?thesis by (simp add: category_id_to_index_snoc)
  next
    case False
    with snoc.prems have i: "i < length cats" by simp
    have ne: "cat_id c \<noteq> cat_id (cats ! i)"
      using snoc.prems(2) i by (auto simp add: nth_append dest: spec [of _ "length cats"])
    have later: "\<forall>j<length cats. i < j \<longrightarrow> cat_id (cats ! j) \<noteq> cat_id (cats ! i)"
    proof (intro allI impI)
      fix j assume j: "j < length cats" "i < j"
      then have "cat_id ((cats @ [c]) ! j) \<noteq> cat_id ((cats @ [c]) ! i)"
        using snoc.prems(2) by simp
      then show "cat_id (cats ! j) \<noteq> cat_id (cats ! i)"
        using i j by (simp add: nth_append)
    qed
    show ?thesis
      using snoc.IH [OF i later] ne i by (simp add: category_id_to_index_snoc nth_append)
  qed
qed

text \<open>
  C4, as the code has it. Building the category index cannot fail. The empty list gives
  the empty mapping; the keys are the ids of the list; an id is mapped to the position of
  its last occurrence, so a later category with the same id replaces the earlier one; when
  the ids are distinct every id is mapped to its own position.
\<close>

theorem category_index_last_wins:
  "category_id_to_index [] = Map.empty
   \<and> dom (category_id_to_index cats) = cat_id ` set cats
   \<and> (\<forall>i<length cats.
        (\<forall>j<length cats. i < j \<longrightarrow> cat_id (cats ! j) \<noteq> cat_id (cats ! i)) \<longrightarrow>
        category_id_to_index cats (cat_id (cats ! i)) = Some i)
   \<and> (distinct (map cat_id cats) \<longrightarrow>
        (\<forall>i<length cats. category_id_to_index cats (cat_id (cats ! i)) = Some i))"
proof (intro conjI)
  show "category_id_to_index [] = Map.empty"
    by (simp add: category_id_to_index_def)
  show "dom (category_id_to_index cats) = cat_id ` set cats"
    by (rule category_id_to_index_dom)
  show "\<forall>i<length cats.
        (\<forall>j<length cats. i < j \<longrightarrow> cat_id (cats ! j) \<noteq> cat_id (cats ! i)) \<longrightarrow>
        category_id_to_index cats (cat_id (cats ! i)) = Some i"
    using category_id_to_index_last by blast
  show "distinct (map cat_id cats) \<longrightarrow>
        (\<forall>i<length cats. category_id_to_index cats (cat_id (cats ! i)) = Some i)"
  proof (intro impI allI)
    fix i assume d: "distinct (map cat_id cats)" and i: "i < length cats"
    have "\<forall>j<length cats. i < j \<longrightarrow> cat_id (cats ! j) \<noteq> cat_id (cats ! i)"
    proof (intro allI impI)
      fix j assume j: "j < length cats" "i < j"
      with d i have "map cat_id cats ! j \<noteq> map cat_id cats ! i"
        by (simp add: distinct_conv_nth)
      with i j show "cat_id (cats ! j) \<noteq> cat_id (cats ! i)" by simp
    qed
    with i show "category_id_to_index cats (cat_id (cats ! i)) = Some i"
      by (rule category_id_to_index_last)
  qed
qed

theorem category_index_last_wins_witness:
  "category_id_to_index dup_categories 1 = Some 1
   \<and> dom (category_id_to_index dup_categories) = {1}"
  using category_index_last_wins [of dup_categories]
  by (auto simp add: dup_categories_def dest: spec [of _ 1])

text \<open>
  The claim C4 as stated fails: with two categories of the same id, and with no category
  at all, the conversion runs to its end, and the duplicated id is mapped to the later
  category's index.
\<close>

theorem duplicate_categories_accepted:
  "\<not> isl (coco_to_yolo example_lib \<lparr>categories = dup_categories, images = [], annotations = []\<rparr>
      [''images''] [''out''] (8 / 10) (2 / 10) 0 42 empty_state)
   \<and> category_id_to_index dup_categories 1 = Some 1
   \<and> \<not> isl (coco_to_yolo example_lib \<lparr>categories = [], images = [], annotations = []\<rparr>
      [''images''] [''out''] (8 / 10) (2 / 10) 0 42 empty_state)"
  by (simp add: coco_to_yolo_def dup_categories_def empty_state_def example_lib_def
      category_id_to_index_def image_id_to_info_def image_to_annotations_def split_dataset_def
      shuffle_def py_int_def py_slice_def py_slice_from_def slice_bound_def Let_def)

subsection \<open>Completeness of the split\<close>










subsection \<open>The file system and the run\<close>




text \<open>A split whose images are all missing is processed to its end.\<close>

lemma all_missing_split_completes:
  "\<forall>iid \<in> set ids. \<exists>info. id_to_info iid = Some info \<and> \<not> path_exists (fs st) (image_dir @ [file_name info]) \<Longrightarrow>
   process_ids L image_dir output_dir id_to_info id_to_index groups split_name ids st
     = Inr (st\<lparr>missing_images := missing_images st @ map (\<lambda>iid. file_name (the (id_to_info iid))) ids\<rparr>)"
proof (induction ids arbitrary: st)
  case Nil
  then show ?case by simp
next
  case (Cons iid ids)
  then obtain info where i: "id_to_info iid = Some info" "\<not> path_exists (fs st) (image_dir @ [file_name info])"
    by auto
  let ?st = "st\<lparr>missing_images := missing_images st @ [file_name info]\<rparr>"
  have p: "process_image L image_dir output_dir id_to_info id_to_index groups split_name iid st = Inr ?st"
    using i by (simp add: process_image_def Let_def)
  have "\<forall>iid \<in> set ids. \<exists>info. id_to_info iid = Some info \<and> \<not> path_exists (fs ?st) (image_dir @ [file_name info])"
    using Cons.prems by simp
  from Cons.IH [OF this] p i show ?case by simp
qed

text \<open>What a run may change: frame lemmas for the directory creation and the loops.\<close>

lemma tl_prefixes: "q \<noteq> [] \<Longrightarrow> prefix q p \<Longrightarrow> q \<in> set (tl (prefixes p))"
proof -
  assume q: "q \<noteq> []" and "prefix q p"
  then have "q \<in> set (prefixes p)" by (simp add: in_set_prefixes)
  moreover have "prefixes p = [] # tl (prefixes p)" by (cases p) simp_all
  ultimately show ?thesis using q by (metis set_ConsD)
qed

lemma makedirs_files [simp]: "files (makedirs p fsys) = files fsys"
  by (simp add: makedirs_def)

lemma makedirs_dirs: "p \<noteq> [] \<Longrightarrow> p \<in> dirs (makedirs p fsys)" "dirs fsys \<subseteq> dirs (makedirs p fsys)"
  by (auto simp add: makedirs_def tl_prefixes)

























end
